theory Spec2Isabelle
  imports Complex_Main "HOL-Library.Log_Nat"
begin

section \<open>Values, exceptions and dictionaries\<close>

text \<open>
  The quote engine is Python. A Python number, int or float, is modelled by the rational
  number it denotes, of type \<^typ>\<open>rat\<close>. Where the source computes with floats and the
  result is not exact, the model rounds as the float64 operation does (section
  \<open>Float arithmetic\<close> below).

  An exception is a value: its class and its message. A message that interpolates the
  text of a caught exception carries that exception.
\<close>

datatype exn =
    RequestException
  | HTTPError int
  | KeyError string
  | TypeError
  | AttributeError
  | UnboundLocalError string
  | OverflowError
  | ValueError message
  | ConnectionError message
and message =
    Could_not_get_location string int
  | Error_retrieving_location string exn
  | Invalid_date_format string
  | Could_not_get_crimes "nat \<times> nat" rat rat int
  | Error_retrieving_crime_data rat rat exn
  | Unexpected_error_retrieving_crimes rat rat exn
  | Error_fetching_flood_data rat rat exn
  | Unexpected_error_retrieving_flood_data exn
  | Error_calculating_crime_risk exn
  | Error_calculating_flood_risk exn
  | Invalid_input_data_provided
  | Error_calculating_location_risks exn
  | Error_calculating_risk_type exn
  | Time_data_does_not_match_format string
  | Sleep_length_must_be_non_negative

text \<open>\<open>d.get(k, dflt)\<close> on a dict literal, the literal written as an association list.\<close>

definition dict_get :: "('k \<times> 'v) list \<Rightarrow> 'k \<Rightarrow> 'v \<Rightarrow> 'v" where
  "dict_get d k dflt = (case map_of d k of None \<Rightarrow> dflt | Some v \<Rightarrow> v)"

section \<open>Float arithmetic\<close>

text \<open>
  A float64 operation returns the exact result rounded to the nearest number with 53
  significant bits, a tie going to the even one. \<open>exponent x\<close> is the \<open>e\<close> with
  \<open>2^e \<le> x < 2^(e+1)\<close>, found with the bit length of a natural number
  (\<open>floorlog 2\<close>, which halves its argument until it is 0). The range of the exponent is
  not modelled: the scorers divide and multiply numbers between 1/400 and the size of a
  dataset.
\<close>

definition round_half_even :: "rat \<Rightarrow> int" where
  "round_half_even y =
     (let f = \<lfloor>y\<rfloor>; d = y - of_int f
      in if d < 1 / 2 then f
         else if 1 / 2 < d then f + 1
         else if even f then f else f + 1)"

definition exponent :: "rat \<Rightarrow> int" where
  "exponent x =
     (if 1 \<le> x then int (floorlog 2 (nat \<lfloor>x\<rfloor>)) - 1
      else - int (floorlog 2 (nat (\<lceil>1 / x\<rceil> - 1))))"

definition round53 :: "rat \<Rightarrow> rat" where
  "round53 x =
     (if x = 0 then 0
      else (let a = \<bar>x\<bar>; e = exponent a
            in sgn x * of_int (round_half_even (a * 2 powi (52 - e))) * 2 powi (e - 52)))"

text \<open>Python's \<open>x / y\<close> and \<open>x * y\<close> with a float result.\<close>

definition float_div :: "rat \<Rightarrow> rat \<Rightarrow> rat" where
  "float_div x y = round53 (x / y)"

definition float_mul :: "rat \<Rightarrow> rat \<Rightarrow> rat" where
  "float_mul x y = round53 (x * y)"

section \<open>The data model of the two datasets\<close>

text \<open>
  A crime record is a JSON object of the police service; the scorer reads its member
  \<open>category\<close> only. The member is a string in the data model; it may also be absent
  (\<open>None\<close> here) or JSON null.
\<close>

datatype jfield = JNull | JStr string

record crime =
  category :: "jfield option"

text \<open>\<open>crime.get('category')\<close>: an absent member reads as Python's None.\<close>

definition crime_get_category :: "crime \<Rightarrow> jfield" where
  "crime_get_category c = (case category c of None \<Rightarrow> JNull | Some v \<Rightarrow> v)"

text \<open>Python's truth value of the member: None and the empty string are false.\<close>

fun truthy_field :: "jfield \<Rightarrow> bool" where
  "truthy_field JNull = False"
| "truthy_field (JStr s) = (s \<noteq> [])"

text \<open>
  A flood item is a JSON object with an integer \<open>severityLevel\<close> and a boolean
  \<open>isTidal\<close>, either of which may be absent. The flood dataset is the response object
  of the flood-monitoring service; the scorer reads its member \<open>items\<close>, which may be
  absent.
\<close>

record flood =
  severityLevel :: "int option"
  isTidal :: "bool option"

record flood_data =
  items :: "flood list option"

section \<open>Risk scorer (risk\_utils.py)\<close>

definition CRIME_PROPERTY_TYPE_MULTIPLIERS :: "(string \<times> rat) list" where
  "CRIME_PROPERTY_TYPE_MULTIPLIERS =
     [(''BEAUTY'', 1), (''HOME'', 3 / 2), (''COMMERCIAL'', 2)]"

definition MAXIMUM_CRIME_RISK :: rat where
  "MAXIMUM_CRIME_RISK = 100"

definition CRIME_WEIGHTS :: "(string \<times> rat) list" where
  "CRIME_WEIGHTS =
     [(''anti-social-behaviour'', 1),
      (''bicycle-theft'', 1),
      (''burglary'', 3),
      (''criminal-damage-arson'', 4),
      (''drugs'', 3 / 2),
      (''other-crime'', 1),
      (''other-theft'', 2),
      (''possession-of-weapons'', 4),
      (''public-order'', 2),
      (''robbery'', 3),
      (''shoplifting'', 2),
      (''theft-from-the-person'', 2),
      (''vehicle-crime'', 2),
      (''violent-crime'', 4)]"

text \<open>
  The loop of \<open>calculate_crime_risk\<close>, with the running \<open>crime_risk\<close> as accumulator:
  \<^verbatim>\<open>
  for crime in crime_data:
      category = crime.get('category')
      if category:
          weight = CRIME_WEIGHTS.get(category, 1)
          crime_risk += weight
  \<close>
\<close>

fun crime_loop :: "crime list \<Rightarrow> rat \<Rightarrow> rat" where
  "crime_loop [] crime_risk = crime_risk"
| "crime_loop (c # rest) crime_risk =
     (case crime_get_category c of
        JNull \<Rightarrow> crime_loop rest crime_risk
      | JStr s \<Rightarrow>
          if truthy_field (JStr s)
          then crime_loop rest (crime_risk + dict_get CRIME_WEIGHTS s 1)
          else crime_loop rest crime_risk)"

text \<open>
  On a list of records no statement of the \<open>try\<close> block raises, so the handler that
  turns an exception into a ValueError is never entered and the result is a number.

  Every weight and multiplier is a multiple of one half, so the sum of the loop and its
  product with the multiplier are exact in the source too, as long as they stay below
  \<open>2^53\<close>, which takes a dataset of more than \<open>10^14\<close> records. The last line,
  \<^verbatim>\<open>min((crime_risk/MAXIMUM_CRIME_RISK), 1) * 100\<close>, divides and multiplies in float64
  and rounds twice.
\<close>

definition calculate_crime_risk :: "crime list \<Rightarrow> string \<Rightarrow> rat" where
  "calculate_crime_risk crime_data product_type =
     (let crime_risk = crime_loop crime_data 0;
          crime_risk = crime_risk * dict_get CRIME_PROPERTY_TYPE_MULTIPLIERS product_type 1
      in float_mul (min (float_div crime_risk MAXIMUM_CRIME_RISK) 1) 100)"

definition FLOOD_PROPERTY_TYPE_MULTIPLIERS :: "(string \<times> rat) list" where
  "FLOOD_PROPERTY_TYPE_MULTIPLIERS =
     [(''BEAUTY'', 1), (''COMMERCIAL'', 3 / 2), (''HOME'', 2)]"

definition MAX_FLOOD_RISK :: rat where
  "MAX_FLOOD_RISK = 200"

text \<open>The body of the flood loop: the score of one item.\<close>

definition flood_score :: "flood \<Rightarrow> rat" where
  "flood_score fl =
     (let level = (case severityLevel fl of None \<Rightarrow> 4 | Some l \<Rightarrow> l);
          tidal = (case isTidal fl of None \<Rightarrow> False | Some b \<Rightarrow> b);
          score = (if level = 1 then 20
                   else if level = 2 then 15
                   else if level = 3 then 10
                   else 0)
      in if tidal then score + 10 else score)"

fun flood_loop :: "flood list \<Rightarrow> rat \<Rightarrow> rat" where
  "flood_loop [] flood_risk = flood_risk"
| "flood_loop (fl # rest) flood_risk = flood_loop rest (flood_risk + flood_score fl)"

text \<open>
  \<open>flood_data.get('items')\<close> is None when the member is absent; iterating over None
  raises a TypeError, which the handler of \<open>calculate_flood_risk\<close> turns into a
  ValueError. The sum and its product with the multiplier are exact, as for the crime
  score; \<^verbatim>\<open>min(flood_risk/MAX_FLOOD_RISK, 1) * 100\<close> divides and multiplies in
  float64.
\<close>

definition calculate_flood_risk :: "flood_data \<Rightarrow> string \<Rightarrow> exn + rat" where
  "calculate_flood_risk fd product_type =
     (case items fd of
        None \<Rightarrow> Inl (ValueError (Error_calculating_flood_risk TypeError))
      | Some its \<Rightarrow>
          (let flood_risk = flood_loop its 0;
               flood_risk = flood_risk * dict_get FLOOD_PROPERTY_TYPE_MULTIPLIERS product_type 1
           in Inr (float_mul (min (float_div flood_risk MAX_FLOOD_RISK) 1) 100)))"

section \<open>Risk orchestrator: category (riskservice.py)\<close>

text \<open>
  \<open>risk_type\<close> assigns \<open>risk_value\<close> in the two branches of an \<open>if\<close>/\<open>elif\<close>
  without an \<open>else\<close>. When neither branch is taken the variable is unbound, reading it
  raises an UnboundLocalError, and the handler of the function turns that into a
  ValueError.
\<close>

definition risk_type :: "rat \<Rightarrow> rat \<Rightarrow> exn + string" where
  "risk_type flood_risk crime_risk =
     (let total_risk = flood_risk + crime_risk;
          risk_value = (if total_risk > 100 then Some ''HIGH_VALUE_RISK''
                        else if total_risk < 100 then Some ''STANDARD_VALUE_RISK''
                        else None)
      in case risk_value of
           None \<Rightarrow> Inl (ValueError (Error_calculating_risk_type (UnboundLocalError ''risk_value'')))
         | Some v \<Rightarrow> Inr v)"

section \<open>Resilient call wrapper (utils.py)\<close>

text \<open>
  \<open>time.sleep(wait_time)\<close> on an int, as CPython on Linux does it: the seconds are
  converted to a 64-bit count of nanoseconds, which raises an OverflowError beyond
  9223372036 seconds in either direction; then a negative wait raises a ValueError;
  otherwise the call sleeps and returns. The result is the exception raised, if any.
\<close>

definition SLEEP_MAX :: int where
  "SLEEP_MAX = 9223372036"

definition time_sleep :: "int \<Rightarrow> exn option" where
  "time_sleep wait_time =
     (if wait_time < - SLEEP_MAX \<or> SLEEP_MAX < wait_time then Some OverflowError
      else if wait_time < 0 then Some (ValueError Sleep_length_must_be_non_negative)
      else None)"

text \<open>
  The wrapper built by \<open>log_api_call(max_retries, backoff_factor)\<close>. The wrapped
  operation is given by its outcomes: \<open>func k\<close> is what its execution number \<open>k\<close>
  (counted from 0) does, an exception or a response. The result of the wrapper is paired
  with the number of executions and the list of the sleeps, in order.

  The source's \<open>attempt\<close> counts the failures so far, which is the number of
  executions so far, since a success returns at once. An exception of \<open>time.sleep\<close>
  is raised inside the handler and leaves the wrapper. When \<open>max_retries\<close> is not
  positive the loop body never runs and the wrapper returns None. The audit record
  written after a success sits in a \<open>try\<close> block of its own whose handler swallows
  every exception, so it changes neither the result nor the loop and is left out.
\<close>

function wrapper_loop ::
  "int \<Rightarrow> int \<Rightarrow> (nat \<Rightarrow> exn + 'r) \<Rightarrow> nat \<Rightarrow> int \<Rightarrow> int list
     \<Rightarrow> (exn + 'r option) \<times> nat \<times> int list" where
  "wrapper_loop max_retries backoff_factor func attempt wait_time slept =
     (if int attempt < max_retries then
        (case func attempt of
           Inr response \<Rightarrow> (Inr (Some response), Suc attempt, slept)
         | Inl e \<Rightarrow>
             if int (Suc attempt) \<ge> max_retries then (Inl e, Suc attempt, slept)
             else
               (case time_sleep wait_time of
                  Some raised \<Rightarrow> (Inl raised, Suc attempt, slept)
                | None \<Rightarrow>
                    wrapper_loop max_retries backoff_factor func (Suc attempt)
                      (wait_time * backoff_factor) (slept @ [wait_time])))
      else (Inr None, attempt, slept))"
  by pat_completeness auto
termination
  by (relation "measure (\<lambda>(m, b, f, a, w, s). nat (m - int a))") auto

definition wrapper :: "int \<Rightarrow> int \<Rightarrow> (nat \<Rightarrow> exn + 'r) \<Rightarrow> (exn + 'r option) \<times> nat \<times> int list" where
  "wrapper max_retries backoff_factor func = wrapper_loop max_retries backoff_factor func 0 1 []"

declare wrapper_loop.simps [simp del]

text \<open>An operation that fails with a \<open>RequestException\<close> at every execution.\<close>

definition always_failing :: "nat \<Rightarrow> exn + string" where
  "always_failing k = Inl RequestException"

section \<open>The cache and the three upstream services\<close>

text \<open>
  The lookups of \<open>risk_utils.py\<close> read and write Django's cache and call three HTTP
  services. Both are state, passed explicitly: a \<open>world\<close> holds the clock, the cache,
  what the services answer, and the trace of the effects performed so far.

  A cache key is built by an f-string from a distinct prefix and the arguments; it is
  modelled by a constructor per prefix. The year-month string \<open>normalized_date\<close> is the
  pair of the year and the month.
\<close>

datatype cache_key =
    Postcode_cordinates string
  | Crimes "nat \<times> nat" rat rat
  | Flood_risk rat rat int

text \<open>
  The Python values that the lookups return and cache: None, a float, the tuple
  \<open>(latitude, longitude)\<close>, a list of crime records, a flood response object with
  members (the service sends \<open>@context\<close>, \<open>meta\<close> and \<open>items\<close>), and the empty
  dict \<open>{}\<close>.
\<close>

datatype pyval =
    PNone
  | PNum rat
  | PCoords rat rat
  | PCrimes "crime list"
  | PFlood flood_data
  | PEmptyDict

text \<open>
  The truth value that \<open>if cached:\<close> tests: None, zero, the empty list and the empty
  dict are false.
\<close>

fun truthy :: "pyval \<Rightarrow> bool" where
  "truthy PNone = False"
| "truthy (PNum x) = (x \<noteq> 0)"
| "truthy (PCoords lat lon) = True"
| "truthy (PCrimes cs) = (cs \<noteq> [])"
| "truthy (PFlood fd) = True"
| "truthy PEmptyDict = False"

text \<open>
  The parsed body of a 200 response of the postcode service, by the shapes that
  \<open>get_long_lat\<close> tells apart: a falsy body; an object without the member
  \<open>result\<close>; an object whose \<open>result\<close> is an object in which \<open>latitude\<close> and
  \<open>longitude\<close> are each present or absent.
\<close>

record pc_result =
  latitude :: "rat option"
  longitude :: "rat option"

datatype pc_body =
    Body_falsy
  | Body_without_result
  | Body_result pc_result

text \<open>
  The parsed body of a response of the flood service: the empty object, or an object with
  members, of which the scorer reads \<open>items\<close>.
\<close>

datatype flood_body =
    Empty_object
  | Flood_object flood_data

fun flood_value :: "flood_body \<Rightarrow> pyval" where
  "flood_value Empty_object = PEmptyDict"
| "flood_value (Flood_object fd) = PFlood fd"

text \<open>
  What \<open>requests.get\<close> does: it raises a \<open>RequestException\<close> (connection failure or
  timeout), or returns a response with a status code and a body.
\<close>

datatype 'b response =
    Request_failed
  | Response int 'b

datatype http_request =
    Postcode_lookup string
  | Crimes_at_location "nat \<times> nat" rat rat
  | Floods rat rat int

datatype event =
    Cache_get cache_key
  | Cache_set int cache_key
  | Http_get http_request

text \<open>
  The cache stores an entry under the pair of a version and a key, with the time at which
  it expires. Each service answers a request as a function of the number of HTTP calls
  made before it, so that an answer may change from one call to the next.
\<close>

record world =
  clock :: rat
  cache_version :: int
  cache_entries :: "int \<times> cache_key \<Rightarrow> (pyval \<times> rat option) option"
  postcodes_io :: "nat \<Rightarrow> string \<Rightarrow> pc_body response"
  police_uk :: "nat \<Rightarrow> nat \<times> nat \<Rightarrow> rat \<Rightarrow> rat \<Rightarrow> crime list response"
  flood_monitoring :: "nat \<Rightarrow> rat \<Rightarrow> rat \<Rightarrow> int \<Rightarrow> flood_body response"
  trace :: "event list"

fun is_http :: "event \<Rightarrow> bool" where
  "is_http (Http_get r) = True"
| "is_http (Cache_get k) = False"
| "is_http (Cache_set v k) = False"

definition http_calls :: "world \<Rightarrow> nat" where
  "http_calls w = length (filter is_http (trace w))"

definition log_event :: "event \<Rightarrow> world \<Rightarrow> world" where
  "log_event ev w = w\<lparr>trace := trace w @ [ev]\<rparr>"

text \<open>
  Django's \<open>cache.get(key)\<close>: the entry under the cache's own version, unless it has
  expired; None when there is none.
\<close>

definition cache_get :: "world \<Rightarrow> cache_key \<Rightarrow> pyval \<times> world" where
  "cache_get w key =
     (let found =
        (case cache_entries w (cache_version w, key) of
           None \<Rightarrow> PNone
         | Some (v, expiry) \<Rightarrow>
             (case expiry of
                None \<Rightarrow> v
              | Some t \<Rightarrow> if t \<le> clock w then PNone else v))
      in (found, log_event (Cache_get key) w))"

text \<open>
  Django's \<open>cache.set(key, value, timeout, version)\<close>, the parameters in the order of its
  signature. A version of None stands for the cache's own version. A timeout of 0 expires
  the entry at once; any other timeout is added to the clock.
\<close>

definition cache_set :: "world \<Rightarrow> cache_key \<Rightarrow> pyval \<Rightarrow> rat \<Rightarrow> int option \<Rightarrow> world" where
  "cache_set w key v timeout version =
     (let ver = (case version of None \<Rightarrow> cache_version w | Some n \<Rightarrow> n);
          expiry = clock w + (if timeout = 0 then - 1 else timeout)
      in log_event (Cache_set ver key)
           (w\<lparr>cache_entries := (cache_entries w)((ver, key) \<mapsto> (v, Some expiry))\<rparr>))"

definition CACHE_TIMEOUT :: int where
  "CACHE_TIMEOUT = 60 * 60 * 24"

section \<open>Coordinate resolver (risk\_utils.py)\<close>

text \<open>\<open>risk_postcode.replace(" ", "").upper()\<close>, on ASCII text.\<close>

definition upper_char :: "char \<Rightarrow> char" where
  "upper_char c =
     dict_get (zip ''abcdefghijklmnopqrstuvwxyz'' ''ABCDEFGHIJKLMNOPQRSTUVWXYZ'') c c"

definition normalize_postcode :: "string \<Rightarrow> string" where
  "normalize_postcode risk_postcode =
     map upper_char (filter (\<lambda>c. c \<noteq> CHR '' '') risk_postcode)"

text \<open>
  The \<open>try\<close> block of \<open>get_long_lat\<close>. On a 200 response whose body is falsy or whose
  \<open>result\<close> lacks \<open>longitude\<close> or \<open>latitude\<close> neither \<open>return\<close> nor \<open>raise\<close> is
  reached and the function returns None. Line 56 is
  \<^verbatim>\<open>cache.set(cache_key, latitude,longitude, CACHE_TIMEOUT)\<close>:
  the value is the latitude, the timeout the longitude, the version \<open>CACHE_TIMEOUT\<close>.
\<close>

definition get_long_lat_try :: "world \<Rightarrow> string \<Rightarrow> (exn + pyval) \<times> world" where
  "get_long_lat_try w risk_postcode =
     (let normalized_postcode = normalize_postcode risk_postcode;
          cache_key = Postcode_cordinates normalized_postcode;
          (cached_coords, w1) = cache_get w cache_key
      in if truthy cached_coords then (Inr cached_coords, w1)
         else
           (let w2 = log_event (Http_get (Postcode_lookup risk_postcode)) w1
            in case postcodes_io w1 (http_calls w1) risk_postcode of
                 Request_failed \<Rightarrow> (Inl RequestException, w2)
               | Response status_code data \<Rightarrow>
                   if status_code = 200 then
                     (case data of
                        Body_falsy \<Rightarrow> (Inr PNone, w2)
                      | Body_without_result \<Rightarrow> (Inl (KeyError ''result''), w2)
                      | Body_result res \<Rightarrow>
                          (case (longitude res, latitude res) of
                             (Some lon, Some lat) \<Rightarrow>
                               (Inr (PCoords lat lon),
                                cache_set w2 cache_key (PNum lat) lon (Some CACHE_TIMEOUT))
                           | _ \<Rightarrow> (Inr PNone, w2)))
                   else (Inl (ValueError (Could_not_get_location risk_postcode status_code)),
                         w2)))"

text \<open>
  The handlers of \<open>get_long_lat\<close>: a \<open>requests.RequestException\<close> becomes a
  ConnectionError; any other exception is raised again as it is.
\<close>

fun is_request_exception :: "exn \<Rightarrow> bool" where
  "is_request_exception RequestException = True"
| "is_request_exception (HTTPError s) = True"
| "is_request_exception e = False"

definition get_long_lat :: "world \<Rightarrow> string \<Rightarrow> (exn + pyval) \<times> world" where
  "get_long_lat w risk_postcode =
     (case get_long_lat_try w risk_postcode of
        (Inl e, w') \<Rightarrow>
          (if is_request_exception e
           then Inl (ConnectionError (Error_retrieving_location risk_postcode e))
           else Inl e, w')
      | (Inr v, w') \<Rightarrow> (Inr v, w'))"

section \<open>Crime data client (risk\_utils.py)\<close>

text \<open>
  \<open>datetime.strptime(date_part, '%Y-%m-%d')\<close> on ASCII text. The library matches the
  regular expression
  \<^verbatim>\<open>(\d\d\d\d)-(1[0-2]|0[1-9]|[1-9])-(3[01]|[12]\d|0[1-9]|[1-9]| [1-9])\<close>
  at the start of the text, the alternatives tried in this order, refuses text left over
  after the match, and then refuses a date that does not exist (year 0, or a day beyond
  the end of the month).
\<close>

definition digit_value :: "char \<Rightarrow> nat option" where
  "digit_value c = map_of (zip ''0123456789'' [0, 1, 2, 3, 4, 5, 6, 7, 8, 9]) c"

fun match_year :: "string \<Rightarrow> (nat \<times> string) option" where
  "match_year (a # b # c # d # rest) =
     (case (digit_value a, digit_value b, digit_value c, digit_value d) of
        (Some p, Some q, Some r, Some s) \<Rightarrow> Some (1000 * p + 100 * q + 10 * r + s, rest)
      | _ \<Rightarrow> None)"
| "match_year s = None"

fun match_dash :: "string \<Rightarrow> string option" where
  "match_dash (c # rest) = (if c = CHR ''-'' then Some rest else None)"
| "match_dash [] = None"

text \<open>
  Every way in which the month group, and the day group, matches a prefix of the text:
  the value and the text that is left, in the order in which the matcher tries them.
\<close>

definition two_digits :: "string \<Rightarrow> (nat \<times> nat \<times> string) list" where
  "two_digits s =
     (case s of
        a # b # rest \<Rightarrow>
          (case (digit_value a, digit_value b) of
             (Some p, Some q) \<Rightarrow> [(p, q, rest)]
           | _ \<Rightarrow> [])
      | _ \<Rightarrow> [])"

definition one_digit :: "string \<Rightarrow> (nat \<times> string) list" where
  "one_digit s =
     (case s of
        a # rest \<Rightarrow>
          (case digit_value a of
             Some p \<Rightarrow> if 1 \<le> p then [(p, rest)] else []
           | None \<Rightarrow> [])
      | [] \<Rightarrow> [])"

definition month_matches :: "string \<Rightarrow> (nat \<times> string) list" where
  "month_matches s =
     concat (map (\<lambda>(p, q, rest).
                    (if p = 1 \<and> q \<le> 2 then [(10 + q, rest)] else [])
                    @ (if p = 0 \<and> 1 \<le> q then [(q, rest)] else []))
                 (two_digits s))
     @ one_digit s"

definition day_matches :: "string \<Rightarrow> (nat \<times> string) list" where
  "day_matches s =
     concat (map (\<lambda>(p, q, rest).
                    (if p = 3 \<and> q \<le> 1 then [(30 + q, rest)] else [])
                    @ (if p = 1 \<or> p = 2 then [(10 * p + q, rest)] else [])
                    @ (if p = 0 \<and> 1 \<le> q then [(q, rest)] else []))
                 (two_digits s))
     @ one_digit s
     @ (case s of c # rest \<Rightarrow> if c = CHR '' '' then one_digit rest else [] | [] \<Rightarrow> [])"

fun first_match :: "('a \<Rightarrow> 'b option) \<Rightarrow> 'a list \<Rightarrow> 'b option" where
  "first_match f [] = None"
| "first_match f (x # xs) = (case f x of None \<Rightarrow> first_match f xs | Some y \<Rightarrow> Some y)"

definition regex_match_Ymd :: "string \<Rightarrow> (nat \<times> nat \<times> nat \<times> string) option" where
  "regex_match_Ymd s =
     (case match_year s of
        None \<Rightarrow> None
      | Some (y, r1) \<Rightarrow>
          (case match_dash r1 of
             None \<Rightarrow> None
           | Some r2 \<Rightarrow>
               first_match
                 (\<lambda>(m, r3).
                    case match_dash r3 of
                      None \<Rightarrow> None
                    | Some r4 \<Rightarrow>
                        (case day_matches r4 of
                           [] \<Rightarrow> None
                         | (d, r5) # others \<Rightarrow> Some (y, m, d, r5)))
                 (month_matches r2)))"

definition days_in_month :: "nat \<Rightarrow> nat \<Rightarrow> nat" where
  "days_in_month y m =
     (if m = 2 then (if y mod 4 = 0 \<and> (y mod 100 \<noteq> 0 \<or> y mod 400 = 0) then 29 else 28)
      else if m = 4 \<or> m = 6 \<or> m = 9 \<or> m = 11 then 30
      else 31)"

definition strptime_Ymd :: "string \<Rightarrow> (nat \<times> nat \<times> nat) option" where
  "strptime_Ymd s =
     (case regex_match_Ymd s of
        None \<Rightarrow> None
      | Some (y, m, d, left_over) \<Rightarrow>
          if left_over \<noteq> [] then None
          else if y = 0 \<or> days_in_month y m < d then None
          else Some (y, m, d))"

text \<open>
  The \<open>try\<close> block of \<open>get_crimes_for_location\<close>. \<open>timestamp.split(' ')[0]\<close> is the
  text before the first space. A response that is not a 200 raises a ValueError inside
  the block.
\<close>

definition get_crimes_for_location_try ::
  "world \<Rightarrow> string \<Rightarrow> rat \<Rightarrow> rat \<Rightarrow> (exn + pyval) \<times> world" where
  "get_crimes_for_location_try w timestamp lat long =
     (let date_part = takeWhile (\<lambda>c. c \<noteq> CHR '' '') timestamp
      in case strptime_Ymd date_part of
           None \<Rightarrow> (Inl (ValueError (Time_data_does_not_match_format date_part)), w)
         | Some (y, m, d) \<Rightarrow>
             (let normalized_date = (y, m);
                  cache_key = Crimes normalized_date long lat;
                  (cached_crimes, w1) = cache_get w cache_key
              in if truthy cached_crimes then (Inr cached_crimes, w1)
                 else
                   (let w2 = log_event (Http_get (Crimes_at_location normalized_date lat long)) w1
                    in case police_uk w1 (http_calls w1) normalized_date lat long of
                         Request_failed \<Rightarrow> (Inl RequestException, w2)
                       | Response status_code data \<Rightarrow>
                           if status_code = 200
                           then (Inr (PCrimes data),
                                 cache_set w2 cache_key (PCrimes data) (of_int CACHE_TIMEOUT) None)
                           else (Inl (ValueError
                                        (Could_not_get_crimes normalized_date long lat status_code)),
                                 w2))))"

text \<open>
  The handlers of \<open>get_crimes_for_location\<close>, in the order of the source:
  \<^verbatim>\<open>
  except requests.RequestException as e:
      raise ConnectionError(f'Error retrieving crime data for location {lat},{long}: {e}')
  except ValueError:
      raise ValueError(f"Invalid date format {timestamp}, should be YYYY-MM")
  except Exception as e:
      raise ValueError(f"Unexpected error occured when retrieving crimes ...: {e}")
  \<close>
\<close>

definition get_crimes_for_location_except :: "string \<Rightarrow> rat \<Rightarrow> rat \<Rightarrow> exn \<Rightarrow> exn" where
  "get_crimes_for_location_except timestamp lat long e =
     (if is_request_exception e then ConnectionError (Error_retrieving_crime_data lat long e)
      else case e of
             ValueError msg \<Rightarrow> ValueError (Invalid_date_format timestamp)
           | _ \<Rightarrow> ValueError (Unexpected_error_retrieving_crimes lat long e))"

definition get_crimes_for_location ::
  "world \<Rightarrow> string \<Rightarrow> rat \<Rightarrow> rat \<Rightarrow> (exn + pyval) \<times> world" where
  "get_crimes_for_location w timestamp lat long =
     (case get_crimes_for_location_try w timestamp lat long of
        (Inl e, w') \<Rightarrow> (Inl (get_crimes_for_location_except timestamp lat long e), w')
      | (Inr v, w') \<Rightarrow> (Inr v, w'))"

section \<open>Flood data client (risk\_utils.py)\<close>

text \<open>
  The \<open>try\<close> block of \<open>get_flood_data_for_location\<close>. \<open>response.raise_for_status()\<close>
  raises an HTTPError, which is a \<open>RequestException\<close>, on a status from 400 to 599.
\<close>

definition get_flood_data_for_location_try ::
  "world \<Rightarrow> rat \<Rightarrow> rat \<Rightarrow> int \<Rightarrow> (exn + pyval) \<times> world" where
  "get_flood_data_for_location_try w lat long dist_km =
     (let cache_key = Flood_risk lat long dist_km;
          (cached_coords, w1) = cache_get w cache_key
      in if truthy cached_coords then (Inr cached_coords, w1)
         else
           (let w2 = log_event (Http_get (Floods lat long dist_km)) w1
            in case flood_monitoring w1 (http_calls w1) lat long dist_km of
                 Request_failed \<Rightarrow> (Inl RequestException, w2)
               | Response status_code data \<Rightarrow>
                   if 400 \<le> status_code \<and> status_code < 600
                   then (Inl (HTTPError status_code), w2)
                   else (Inr (flood_value data),
                         cache_set w2 cache_key (flood_value data) (of_int CACHE_TIMEOUT)
                           None)))"

text \<open>
  Its handlers: the first clause takes every \<open>RequestException\<close>, so the two clauses
  after it for timeouts and connection errors, which are \<open>RequestException\<close>s, are
  never entered; the last clause takes everything else.
\<close>

definition get_flood_data_for_location ::
  "world \<Rightarrow> rat \<Rightarrow> rat \<Rightarrow> int \<Rightarrow> (exn + pyval) \<times> world" where
  "get_flood_data_for_location w lat long dist_km =
     (case get_flood_data_for_location_try w lat long dist_km of
        (Inl e, w') \<Rightarrow>
          (if is_request_exception e
           then Inl (ConnectionError (Error_fetching_flood_data lat long e))
           else Inl (ValueError (Unexpected_error_retrieving_flood_data e)), w')
      | (Inr v, w') \<Rightarrow> (Inr v, w'))"

section \<open>Risk orchestrator: the assessment (riskservice.py)\<close>

record location_risks =
  flood_risk :: rat
  crime_risk :: rat

text \<open>
  The \<open>try\<close> block of \<open>calculate_location_risks\<close>. Unpacking the result of
  \<open>get_long_lat\<close> into \<open>latitude, longitude\<close> raises a TypeError unless it is a
  pair. On the empty dict \<open>flood_data.get('items')\<close> is None, and the flood scorer
  raises as it does for any object without \<open>items\<close>. The lookups hand on what they
  return, so the scorers may be given a value that is not a dataset; the cache never holds
  such a value under a flood or crime key, and the model raises the scorer's ValueError
  there.
\<close>

definition calculate_location_risks_try ::
  "world \<Rightarrow> string \<Rightarrow> string \<Rightarrow> string \<Rightarrow> (exn + location_risks) \<times> world" where
  "calculate_location_risks_try w postcode product_type timestamp =
     (case get_long_lat w postcode of
        (Inl e, w1) \<Rightarrow> (Inl e, w1)
      | (Inr (PCoords lat long), w1) \<Rightarrow>
          (case get_flood_data_for_location w1 lat long 50 of
             (Inl e, w2) \<Rightarrow> (Inl e, w2)
           | (Inr (PFlood fd), w2) \<Rightarrow>
               (case calculate_flood_risk fd product_type of
                  Inl e \<Rightarrow> (Inl e, w2)
                | Inr flood \<Rightarrow>
                    (case get_crimes_for_location w2 timestamp lat long of
                       (Inl e, w3) \<Rightarrow> (Inl e, w3)
                     | (Inr (PCrimes crime_data), w3) \<Rightarrow>
                         (Inr \<lparr>flood_risk = flood,
                               crime_risk = calculate_crime_risk crime_data ''HOME''\<rparr>, w3)
                     | (Inr other, w3) \<Rightarrow>
                         (Inl (ValueError (Error_calculating_crime_risk AttributeError)), w3)))
           | (Inr PEmptyDict, w2) \<Rightarrow>
               (Inl (ValueError (Error_calculating_flood_risk TypeError)), w2)
           | (Inr other, w2) \<Rightarrow>
               (Inl (ValueError (Error_calculating_flood_risk AttributeError)), w2))
      | (Inr other, w1) \<Rightarrow> (Inl TypeError, w1))"

definition calculate_location_risks ::
  "world \<Rightarrow> string \<Rightarrow> string \<Rightarrow> string \<Rightarrow> (exn + location_risks) \<times> world" where
  "calculate_location_risks w postcode product_type timestamp =
     (if postcode = [] \<or> product_type = [] \<or> timestamp = []
      then (Inl (ValueError Invalid_input_data_provided), w)
      else case calculate_location_risks_try w postcode product_type timestamp of
             (Inl e, w') \<Rightarrow> (Inl (ValueError (Error_calculating_location_risks e)), w')
           | (Inr risks, w') \<Rightarrow> (Inr risks, w'))"

section \<open>An example world\<close>

text \<open>
  A world for the concrete runs below: an empty cache of version 1 (Django's default),
  a postcode service that resolves every postcode to latitude 51.5 and longitude 0.25,
  a flood service without items, and a police service that reports one burglary.
\<close>

definition example_world :: world where
  "example_world =
     \<lparr>clock = 1000,
      cache_version = 1,
      cache_entries = (\<lambda>k. None),
      postcodes_io =
        (\<lambda>n pc. Response 200 (Body_result \<lparr>latitude = Some (103 / 2), longitude = Some (1 / 4)\<rparr>)),
      police_uk = (\<lambda>n d lat long. Response 200 [\<lparr>category = Some (JStr ''burglary'')\<rparr>]),
      flood_monitoring = (\<lambda>n lat long d. Response 200 (Flood_object \<lparr>items = Some []\<rparr>)),
      trace = []\<rparr>"

text \<open>
  The same world with a postcode service that answers 200 with a non-empty object that
  has no member \<open>result\<close>.
\<close>

definition world_without_result :: world where
  "world_without_result =
     example_world\<lparr>postcodes_io := (\<lambda>n pc. Response 200 Body_without_result)\<rparr>"

section \<open>The scorers as the specification words them\<close>

text \<open>
  The specification's product multipliers: for crime BEAUTY=1.0, HOME=1.5,
  COMMERCIAL=2.0; for flood BEAUTY=1.0, COMMERCIAL=1.5, HOME=2.0; an unknown product
  type has the multiplier 1.0 in both.
\<close>

definition spec_crime_multiplier :: "string \<Rightarrow> rat" where
  "spec_crime_multiplier pt =
     (if pt = ''BEAUTY'' then 1
      else if pt = ''HOME'' then 3 / 2
      else if pt = ''COMMERCIAL'' then 2
      else 1)"

definition spec_flood_multiplier :: "string \<Rightarrow> rat" where
  "spec_flood_multiplier pt =
     (if pt = ''BEAUTY'' then 1
      else if pt = ''COMMERCIAL'' then 3 / 2
      else if pt = ''HOME'' then 2
      else 1)"

text \<open>
  The specification's crime sum: every record contributes the weight of its category
  from the table, and a category that is not in the table weighs 1.
\<close>

definition spec_crime_weight :: "crime \<Rightarrow> rat" where
  "spec_crime_weight c =
     (case category c of
        Some (JStr s) \<Rightarrow> dict_get CRIME_WEIGHTS s 1
      | _ \<Rightarrow> 1)"

text \<open>The specification's normalisation \<open>min(sum/100, 1) * 100\<close>, in exact arithmetic.\<close>

definition spec_crime_score :: "crime list \<Rightarrow> string \<Rightarrow> rat" where
  "spec_crime_score ds pt =
     min (sum_list (map spec_crime_weight ds) * spec_crime_multiplier pt / 100) 1 * 100"

text \<open>
  The sum the code forms: a record whose category is absent, null or the empty string
  contributes nothing.
\<close>

definition crime_weight :: "crime \<Rightarrow> rat" where
  "crime_weight c =
     (case category c of
        Some (JStr s) \<Rightarrow> if s = [] then 0 else dict_get CRIME_WEIGHTS s 1
      | _ \<Rightarrow> 0)"

text \<open>
  The specification's flood item score: level 1 scores 20, level 2 scores 15, level 3
  scores 10, any other or missing level 0; a tidal item adds 10.
\<close>

definition spec_flood_item_score :: "flood \<Rightarrow> rat" where
  "spec_flood_item_score fl =
     (if severityLevel fl = Some 1 then 20
      else if severityLevel fl = Some 2 then 15
      else if severityLevel fl = Some 3 then 10
      else 0)
     + (if isTidal fl = Some True then 10 else 0)"

definition spec_flood_score :: "flood list \<Rightarrow> string \<Rightarrow> rat" where
  "spec_flood_score fs pt =
     min (sum_list (map spec_flood_item_score fs) * spec_flood_multiplier pt / 200) 1 * 100"

section \<open>Properties of the float arithmetic\<close>

lemma exponent_bounds:
  assumes "0 < x"
  shows "2 powi exponent x \<le> x \<and> x < 2 powi (exponent x + 1)"
proof (cases "1 \<le> x")
  case True
  define n where "n = nat \<lfloor>x\<rfloor>"
  define k where "k = floorlog 2 n"
  have n: "0 < n" "rat_of_nat n \<le> x" "x < rat_of_nat n + 1"
    using True by (auto simp: n_def) linarith+
  have b: "2 ^ (k - 1) \<le> n \<and> n < 2 ^ k"
    unfolding k_def using floorlog_bounds [of n 2] n(1) by simp
  have kpos: "0 < k" using b n(1) by (cases k) auto
  have e: "exponent x = int k - 1" using True by (simp add: exponent_def n_def k_def)
  have "rat_of_nat (2 ^ (k - 1)) \<le> rat_of_nat n"
    using b by (simp only: of_nat_le_iff)
  then have "(2::rat) ^ (k - 1) \<le> rat_of_nat n" by simp
  then have "(2::rat) ^ (k - 1) \<le> x" using n(2) by (rule order_trans)
  moreover have "(2::rat) powi (int k - 1) = 2 ^ (k - 1)"
    using kpos by (simp add: power_int_def nat_diff_distrib)
  ultimately have lo: "(2::rat) powi (int k - 1) \<le> x" by simp
  have "n + 1 \<le> 2 ^ k" using b by simp
  then have "rat_of_nat (n + 1) \<le> rat_of_nat (2 ^ k)"
    by (simp only: of_nat_le_iff)
  then have "rat_of_nat n + 1 \<le> 2 ^ k" by simp
  with n(3) have "x < 2 ^ k" by (rule less_le_trans)
  then have hi: "x < 2 powi (int k)" by simp
  show ?thesis using lo hi e by simp
next
  case False
  define y where "y = 1 / x"
  have y: "1 < y" using False assms by (simp add: y_def)
  define n where "n = nat (\<lceil>y\<rceil> - 1)"
  define k where "k = floorlog 2 n"
  have "2 \<le> \<lceil>y\<rceil>" using y by linarith
  then have n: "0 < n" "rat_of_nat n < y" "y \<le> rat_of_nat n + 1"
    by (auto simp: n_def) linarith+
  have b: "2 ^ (k - 1) \<le> n \<and> n < 2 ^ k"
    unfolding k_def using floorlog_bounds [of n 2] n(1) by simp
  have kpos: "0 < k" using b n(1) by (cases k) auto
  have e: "exponent x = - int k" using False by (simp add: exponent_def n_def k_def y_def)
  have "rat_of_nat (2 ^ (k - 1)) \<le> rat_of_nat n"
    using b by (simp only: of_nat_le_iff)
  then have "(2::rat) ^ (k - 1) \<le> rat_of_nat n" by simp
  then have ylo: "(2::rat) ^ (k - 1) < y" using n(2) by (rule le_less_trans)
  have "n + 1 \<le> 2 ^ k" using b by simp
  then have "rat_of_nat (n + 1) \<le> rat_of_nat (2 ^ k)"
    by (simp only: of_nat_le_iff)
  then have "rat_of_nat n + 1 \<le> 2 ^ k" by simp
  with n(3) have yhi: "y \<le> 2 ^ k" by (rule order_trans)
  have x: "x = 1 / y" using assms by (simp add: y_def)
  have lo: "2 powi (- int k) \<le> x"
    using yhi y unfolding x by (simp add: power_int_minus field_simps)
  have "x < 1 / 2 ^ (k - 1)"
    using ylo y unfolding x by (simp add: field_simps)
  moreover have "(2::rat) powi (- int k + 1) = 1 / 2 ^ (k - 1)"
    using kpos by (cases k) (simp_all add: power_int_def field_simps)
  ultimately have hi: "x < 2 powi (- int k + 1)" by simp
  show ?thesis using lo hi e by simp
qed

lemma exponent_unique:
  assumes "0 < x" and "2 powi e \<le> x" and "x < 2 powi (e + 1)"
  shows "exponent x = e"
proof -
  note b = exponent_bounds [OF assms(1)]
  have "\<not> exponent x < e"
  proof
    assume "exponent x < e"
    then have "(2::rat) powi (exponent x + 1) \<le> 2 powi e"
      by (intro power_int_increasing) auto
    with b assms(2) show False by simp
  qed
  moreover have "\<not> e < exponent x"
  proof
    assume "e < exponent x"
    then have "(2::rat) powi (e + 1) \<le> 2 powi exponent x"
      by (intro power_int_increasing) auto
    with b assms(3) show False by simp
  qed
  ultimately show ?thesis by simp
qed

lemma round53_at:
  assumes "0 < x" and "2 powi e \<le> x" and "x < 2 powi (e + 1)"
  shows "round53 x = of_int (round_half_even (x * 2 powi (52 - e))) * 2 powi (e - 52)"
  using assms exponent_unique [OF assms] by (simp add: round53_def Let_def)

lemma round_half_even_nonneg: "0 \<le> y \<Longrightarrow> 0 \<le> round_half_even y"
  by (simp add: round_half_even_def Let_def)

lemma round_half_even_le:
  assumes "y \<le> of_int n"
  shows "round_half_even y \<le> n"
proof -
  have f: "\<lfloor>y\<rfloor> \<le> n" using assms by (simp add: floor_le_iff)
  show ?thesis
  proof (cases "y = of_int \<lfloor>y\<rfloor>")
    case True
    then show ?thesis using f by (simp add: round_half_even_def Let_def)
  next
    case False
    then have "of_int \<lfloor>y\<rfloor> < y"
      by (metis of_int_floor_le order.not_eq_order_implies_strict)
    with assms have "rat_of_int \<lfloor>y\<rfloor> < of_int n" by simp
    then have "\<lfloor>y\<rfloor> + 1 \<le> n" by simp
    then show ?thesis using f by (simp add: round_half_even_def Let_def)
  qed
qed

lemma round53_nonneg: "0 \<le> x \<Longrightarrow> 0 \<le> round53 x"
  by (auto simp: round53_def Let_def intro!: mult_nonneg_nonneg round_half_even_nonneg)

lemma round53_zero: "round53 0 = 0"
  by (simp add: round53_def)

lemma round53_le_100:
  assumes "0 \<le> x" and "x \<le> 100"
  shows "round53 x \<le> 100"
proof (cases "x = 0")
  case True
  then show ?thesis by (simp add: round53_def)
next
  case False
  with assms have pos: "0 < x" by simp
  define e where "e = exponent x"
  note b = exponent_bounds [OF pos, folded e_def]
  have "\<not> 7 \<le> e"
  proof
    assume "7 \<le> e"
    then have "(2::rat) powi 7 \<le> 2 powi e" by (intro power_int_increasing) auto
    with b assms(2) show False by simp
  qed
  then have e: "0 \<le> 52 - e" by simp
  define N :: int where "N = 100 * 2 ^ nat (52 - e)"
  have N: "rat_of_int N = 100 * 2 powi (52 - e)"
    using e by (simp add: N_def power_int_def)
  have "x * 2 powi (52 - e) \<le> of_int N"
    unfolding N using assms(2) by (intro mult_right_mono) auto
  then have "round_half_even (x * 2 powi (52 - e)) \<le> N" by (rule round_half_even_le)
  then have "rat_of_int (round_half_even (x * 2 powi (52 - e))) \<le> of_int N" by simp
  then have "rat_of_int (round_half_even (x * 2 powi (52 - e))) * 2 powi (e - 52)
               \<le> of_int N * 2 powi (e - 52)"
    by (intro mult_right_mono) auto
  also have "\<dots> = 100 * (2 powi (52 - e) * 2 powi (e - 52))" by (simp add: N)
  also have "2 powi (52 - e) * 2 powi (e - 52) = (1::rat)"
    by (simp flip: power_int_add)
  finally show ?thesis using pos by (simp add: round53_def Let_def e_def)
qed

lemma float_normalise_range:
  assumes "0 \<le> x" and "0 < c"
  shows "0 \<le> float_mul (min (float_div x c) 1) 100
         \<and> float_mul (min (float_div x c) 1) 100 \<le> 100"
proof -
  have "0 \<le> x / c" using assms by simp
  then have "0 \<le> float_div x c" unfolding float_div_def by (rule round53_nonneg)
  then have m: "0 \<le> min (float_div x c) 1" "min (float_div x c) 1 \<le> 1" by simp_all
  then have "0 \<le> min (float_div x c) 1 * 100" "min (float_div x c) 1 * 100 \<le> 100"
    by simp_all
  then show ?thesis
    unfolding float_mul_def by (simp add: round53_nonneg round53_le_100)
qed

section \<open>Properties of the scorers\<close>

lemma crime_loop_sum: "crime_loop ds acc = acc + sum_list (map crime_weight ds)"
proof (induction ds arbitrary: acc)
  case Nil
  show ?case by simp
next
  case (Cons c ds)
  show ?case
  proof (cases "category c")
    case None
    then show ?thesis
      using Cons.IH by (simp add: crime_get_category_def crime_weight_def)
  next
    case (Some v)
    then show ?thesis
      using Cons.IH by (cases v) (simp_all add: crime_get_category_def crime_weight_def)
  qed
qed

lemma flood_loop_sum: "flood_loop fs acc = acc + sum_list (map flood_score fs)"
  by (induction fs arbitrary: acc) simp_all

lemma dict_get_crime_weights_pos: "0 \<le> dict_get CRIME_WEIGHTS s 1"
  by (simp add: dict_get_def CRIME_WEIGHTS_def)

lemma crime_weight_nonneg: "0 \<le> crime_weight c"
  using dict_get_crime_weights_pos
  by (simp add: crime_weight_def split: option.splits jfield.splits)

lemma flood_score_nonneg: "0 \<le> flood_score fl"
  by (simp add: flood_score_def Let_def)

lemma sum_list_map_nonneg:
  fixes f :: "'a \<Rightarrow> rat"
  assumes "\<And>x. 0 \<le> f x"
  shows "0 \<le> sum_list (map f xs)"
  using assms by (induction xs) simp_all

lemma crime_multiplier_nonneg: "0 \<le> dict_get CRIME_PROPERTY_TYPE_MULTIPLIERS pt 1"
  by (simp add: dict_get_def CRIME_PROPERTY_TYPE_MULTIPLIERS_def)

lemma flood_multiplier_nonneg: "0 \<le> dict_get FLOOD_PROPERTY_TYPE_MULTIPLIERS pt 1"
  by (simp add: dict_get_def FLOOD_PROPERTY_TYPE_MULTIPLIERS_def)

lemma crime_multiplier_spec:
  "dict_get CRIME_PROPERTY_TYPE_MULTIPLIERS pt 1 = spec_crime_multiplier pt"
  by (simp add: dict_get_def CRIME_PROPERTY_TYPE_MULTIPLIERS_def spec_crime_multiplier_def)

lemma flood_multiplier_spec:
  "dict_get FLOOD_PROPERTY_TYPE_MULTIPLIERS pt 1 = spec_flood_multiplier pt"
  by (simp add: dict_get_def FLOOD_PROPERTY_TYPE_MULTIPLIERS_def spec_flood_multiplier_def)

lemma flood_score_spec: "flood_score fl = spec_flood_item_score fl"
  by (cases "severityLevel fl"; cases "isTidal fl")
     (simp_all add: flood_score_def spec_flood_item_score_def Let_def)

lemma calculate_crime_risk_closed:
  "calculate_crime_risk ds pt =
     float_mul
       (min (float_div (sum_list (map crime_weight ds) * spec_crime_multiplier pt) 100) 1) 100"
  by (simp add: calculate_crime_risk_def crime_loop_sum crime_multiplier_spec
        MAXIMUM_CRIME_RISK_def Let_def)

lemma calculate_flood_risk_closed:
  "calculate_flood_risk \<lparr>items = Some fs\<rparr> pt =
     Inr (float_mul
            (min (float_div (sum_list (map spec_flood_item_score fs) * spec_flood_multiplier pt)
                    200) 1) 100)"
proof -
  have "flood_score = spec_flood_item_score"
    by (rule ext) (rule flood_score_spec)
  then have "flood_loop fs 0 = sum_list (map spec_flood_item_score fs)"
    using flood_loop_sum [of fs 0] by simp
  then show ?thesis
    by (simp add: calculate_flood_risk_def flood_multiplier_spec MAX_FLOOD_RISK_def Let_def)
qed

lemma unknown_category_weight:
  assumes "s \<noteq> []" and "map_of CRIME_WEIGHTS s = None"
  shows "crime_weight \<lparr>category = Some (JStr s)\<rparr> = 1"
  using assms by (simp add: crime_weight_def dict_get_def)

lemma crime_weight_skipped:
  assumes "category c = None \<or> category c = Some JNull \<or> category c = Some (JStr [])"
  shows "crime_weight c = 0"
  using assms by (auto simp: crime_weight_def)

subsection \<open>C3: the crime score\<close>

text \<open>
  C3 as stated fails: for the dataset of one record whose category is the empty string,
  a string that is not one of the 14 named categories, the claim's sum is 1 and its score
  for product type BEAUTY is 1, while \<open>calculate_crime_risk\<close> skips the record and
  returns 0.
\<close>

theorem crime_score_empty_category_counterexample:
  "calculate_crime_risk [\<lparr>category = Some (JStr [])\<rparr>] ''BEAUTY''
     \<noteq> spec_crime_score [\<lparr>category = Some (JStr [])\<rparr>] ''BEAUTY''"
proof -
  have "calculate_crime_risk [\<lparr>category = Some (JStr [])\<rparr>] ''BEAUTY'' = 0"
    by (simp add: calculate_crime_risk_def crime_get_category_def MAXIMUM_CRIME_RISK_def
          float_div_def float_mul_def round53_zero)
  moreover have "spec_crime_score [\<lparr>category = Some (JStr [])\<rparr>] ''BEAUTY'' = 1"
    by (simp add: spec_crime_score_def spec_crime_weight_def spec_crime_multiplier_def
          dict_get_def CRIME_WEIGHTS_def)
  ultimately show ?thesis by simp
qed

text \<open>
  The two float operations of the last line round: a violent crime and a burglary weigh
  7 together, and for BEAUTY the code returns \<open>7/100*100\<close> in float64, which is
  \<open>7 + 2^-50\<close>, printed 7.000000000000001.
\<close>

lemma crime_score_rounding_example:
  "calculate_crime_risk
     [\<lparr>category = Some (JStr ''violent-crime'')\<rparr>, \<lparr>category = Some (JStr ''burglary'')\<rparr>]
     ''BEAUTY''
   = 7 + 1 / 2 ^ 50"
  by code_simp

text \<open>
  C3 (amended): for every crime dataset and product type, \<open>calculate_crime_risk\<close>
  returns \<open>min(S/100, 1) * 100\<close> as float64 arithmetic evaluates it, the quotient and
  the product each rounded to the nearest float, where \<open>S\<close> is the sum, over the records
  whose category is present and a non-empty string, of the category's weight in the table
  of 14 named categories (a non-empty string that is not in the table weighs 1; a record
  whose category is absent, null or empty contributes 0), multiplied by the product
  multiplier BEAUTY=1.0, HOME=1.5, COMMERCIAL=2.0 (1.0 for any other product type). The
  dataset of a burglary and a drugs record scores exactly 6.75 for HOME.
\<close>

theorem calculate_crime_risk_formula:
  "calculate_crime_risk ds pt =
     float_mul
       (min (float_div (sum_list (map crime_weight ds) * spec_crime_multiplier pt) 100) 1) 100
   \<and> (s \<noteq> [] \<and> map_of CRIME_WEIGHTS s = None
        \<longrightarrow> crime_weight \<lparr>category = Some (JStr s)\<rparr> = 1)
   \<and> (s \<noteq> [] \<longrightarrow> crime_weight \<lparr>category = Some (JStr s)\<rparr> = dict_get CRIME_WEIGHTS s 1)
   \<and> length CRIME_WEIGHTS = 14 \<and> distinct (map fst CRIME_WEIGHTS)
   \<and> calculate_crime_risk
        [\<lparr>category = Some (JStr ''burglary'')\<rparr>, \<lparr>category = Some (JStr ''drugs'')\<rparr>] ''HOME''
       = 27 / 4"
proof -
  have table: "length CRIME_WEIGHTS = 14 \<and> distinct (map fst CRIME_WEIGHTS)"
    by (simp add: CRIME_WEIGHTS_def)
  have known: "s \<noteq> [] \<longrightarrow> crime_weight \<lparr>category = Some (JStr s)\<rparr> = dict_get CRIME_WEIGHTS s 1"
    by (simp add: crime_weight_def)
  have scenario:
    "calculate_crime_risk
       [\<lparr>category = Some (JStr ''burglary'')\<rparr>, \<lparr>category = Some (JStr ''drugs'')\<rparr>] ''HOME''
     = 27 / 4"
    by code_simp
  show ?thesis
    using calculate_crime_risk_closed unknown_category_weight table known scenario
    by blast
qed

theorem calculate_crime_risk_formula_witness:
  "''arson'' \<noteq> [] \<and> map_of CRIME_WEIGHTS ''arson'' = None
   \<and> crime_weight \<lparr>category = Some (JStr ''arson'')\<rparr> = 1
   \<and> calculate_crime_risk [\<lparr>category = Some (JStr ''arson'')\<rparr>] ''COMMERCIAL'' = 2"
proof -
  have unknown: "''arson'' \<noteq> [] \<and> map_of CRIME_WEIGHTS ''arson'' = None"
    by (simp add: CRIME_WEIGHTS_def)
  have two: "float_mul (min (float_div (1 * 2) 100) 1) 100 = 2"
    by code_simp
  have weight: "crime_weight \<lparr>category = Some (JStr ''arson'')\<rparr> = 1"
    using unknown
      calculate_crime_risk_formula
        [of "[\<lparr>category = Some (JStr ''arson'')\<rparr>]" "''COMMERCIAL''" "''arson''"]
    by blast
  have "calculate_crime_risk [\<lparr>category = Some (JStr ''arson'')\<rparr>] ''COMMERCIAL''
        = float_mul
            (min (float_div (crime_weight \<lparr>category = Some (JStr ''arson'')\<rparr> * 2) 100) 1) 100"
    using calculate_crime_risk_formula
            [of "[\<lparr>category = Some (JStr ''arson'')\<rparr>]" "''COMMERCIAL''" "''arson''"]
    by (simp add: spec_crime_multiplier_def)
  then show ?thesis using unknown weight two by simp
qed

subsection \<open>C4: the flood score\<close>

text \<open>
  C4 as stated fails: the code divides and multiplies in float64. For the dataset of an
  item of level 2 and two tidal items of level 3, whose sum is 55, and product type HOME
  the claim's score is \<open>min(110/200, 1) * 100 = 55\<close>, while \<open>calculate_flood_risk\<close>
  returns \<open>55 + 2^-47\<close>, printed 55.00000000000001.
\<close>

theorem flood_score_rounding_counterexample:
  "calculate_flood_risk
     \<lparr>items = Some [\<lparr>severityLevel = Some 2, isTidal = Some False\<rparr>,
                    \<lparr>severityLevel = Some 3, isTidal = Some True\<rparr>,
                    \<lparr>severityLevel = Some 3, isTidal = Some True\<rparr>]\<rparr> ''HOME''
     = Inr (55 + 1 / 2 ^ 47)
   \<and> spec_flood_score
        [\<lparr>severityLevel = Some 2, isTidal = Some False\<rparr>,
         \<lparr>severityLevel = Some 3, isTidal = Some True\<rparr>,
         \<lparr>severityLevel = Some 3, isTidal = Some True\<rparr>] ''HOME''
     = 55
   \<and> calculate_flood_risk
        \<lparr>items = Some [\<lparr>severityLevel = Some 2, isTidal = Some False\<rparr>,
                       \<lparr>severityLevel = Some 3, isTidal = Some True\<rparr>,
                       \<lparr>severityLevel = Some 3, isTidal = Some True\<rparr>]\<rparr> ''HOME''
     \<noteq> Inr (spec_flood_score
              [\<lparr>severityLevel = Some 2, isTidal = Some False\<rparr>,
               \<lparr>severityLevel = Some 3, isTidal = Some True\<rparr>,
               \<lparr>severityLevel = Some 3, isTidal = Some True\<rparr>] ''HOME'')"
proof -
  have code:
    "calculate_flood_risk
       \<lparr>items = Some [\<lparr>severityLevel = Some 2, isTidal = Some False\<rparr>,
                      \<lparr>severityLevel = Some 3, isTidal = Some True\<rparr>,
                      \<lparr>severityLevel = Some 3, isTidal = Some True\<rparr>]\<rparr> ''HOME''
     = Inr (55 + 1 / 2 ^ 47)"
    by code_simp
  have spec:
    "spec_flood_score
       [\<lparr>severityLevel = Some 2, isTidal = Some False\<rparr>,
        \<lparr>severityLevel = Some 3, isTidal = Some True\<rparr>,
        \<lparr>severityLevel = Some 3, isTidal = Some True\<rparr>] ''HOME''
     = 55"
    by (simp add: spec_flood_score_def spec_flood_item_score_def spec_flood_multiplier_def)
  show ?thesis unfolding code spec by simp
qed

text \<open>
  C4 (amended): for every flood dataset (the items of the response object) and product
  type, \<open>calculate_flood_risk\<close> returns \<open>min(S/200, 1) * 100\<close> as float64 arithmetic
  evaluates it, the quotient and the product each rounded to the nearest float, where
  \<open>S\<close> is the sum over the items of the severity score (level 1 scores 20, level 2
  scores 15, level 3 scores 10, any other or missing level 0) plus 10 for a tidal item,
  multiplied by the product multiplier BEAUTY=1.0, COMMERCIAL=1.5, HOME=2.0. One tidal
  item of level 1 scores exactly 30 for HOME.
\<close>

theorem calculate_flood_risk_formula:
  "calculate_flood_risk \<lparr>items = Some fs\<rparr> pt
     = Inr (float_mul
              (min (float_div
                      (sum_list (map spec_flood_item_score fs) * spec_flood_multiplier pt) 200)
                 1) 100)
   \<and> calculate_flood_risk
        \<lparr>items = Some [\<lparr>severityLevel = Some 1, isTidal = Some True\<rparr>]\<rparr> ''HOME''
       = Inr 30"
proof -
  have "calculate_flood_risk
          \<lparr>items = Some [\<lparr>severityLevel = Some 1, isTidal = Some True\<rparr>]\<rparr> ''HOME''
        = Inr 30"
    by code_simp
  then show ?thesis
    by (simp add: calculate_flood_risk_closed)
qed

subsection \<open>C5: both scores lie in the range from 0 to 100\<close>

text \<open>
  C5: for every dataset and every product type, both scorers return a value between 0
  and 100, and 0 for the empty dataset; a product type other than the three named ones
  has the multiplier 1 in both.
\<close>

theorem scores_in_range:
  "0 \<le> calculate_crime_risk ds pt \<and> calculate_crime_risk ds pt \<le> 100
   \<and> calculate_crime_risk [] pt = 0
   \<and> (\<exists>r. calculate_flood_risk \<lparr>items = Some fs\<rparr> pt = Inr r \<and> 0 \<le> r \<and> r \<le> 100)
   \<and> calculate_flood_risk \<lparr>items = Some []\<rparr> pt = Inr 0
   \<and> (pt \<noteq> ''BEAUTY'' \<and> pt \<noteq> ''HOME'' \<and> pt \<noteq> ''COMMERCIAL''
        \<longrightarrow> dict_get CRIME_PROPERTY_TYPE_MULTIPLIERS pt 1 = 1
            \<and> dict_get FLOOD_PROPERTY_TYPE_MULTIPLIERS pt 1 = 1)"
proof -
  have c0: "0 \<le> sum_list (map crime_weight ds) * dict_get CRIME_PROPERTY_TYPE_MULTIPLIERS pt 1"
    by (intro mult_nonneg_nonneg sum_list_map_nonneg crime_weight_nonneg
          crime_multiplier_nonneg)
  have crime: "0 \<le> calculate_crime_risk ds pt \<and> calculate_crime_risk ds pt \<le> 100"
    using float_normalise_range [OF c0, of 100]
    by (simp add: calculate_crime_risk_def crime_loop_sum MAXIMUM_CRIME_RISK_def Let_def)
  have crime_empty: "calculate_crime_risk [] pt = 0"
    by (simp add: calculate_crime_risk_def MAXIMUM_CRIME_RISK_def float_div_def float_mul_def
          round53_zero)
  have f0: "0 \<le> sum_list (map flood_score fs) * dict_get FLOOD_PROPERTY_TYPE_MULTIPLIERS pt 1"
    by (intro mult_nonneg_nonneg sum_list_map_nonneg flood_score_nonneg
          flood_multiplier_nonneg)
  have flood:
    "\<exists>r. calculate_flood_risk \<lparr>items = Some fs\<rparr> pt = Inr r \<and> 0 \<le> r \<and> r \<le> 100"
    using float_normalise_range [OF f0, of 200]
    by (simp add: calculate_flood_risk_def flood_loop_sum MAX_FLOOD_RISK_def Let_def)
  have flood_empty: "calculate_flood_risk \<lparr>items = Some []\<rparr> pt = Inr 0"
    by (simp add: calculate_flood_risk_def MAX_FLOOD_RISK_def float_div_def float_mul_def
          round53_zero)
  have unknown:
    "pt \<noteq> ''BEAUTY'' \<and> pt \<noteq> ''HOME'' \<and> pt \<noteq> ''COMMERCIAL''
       \<longrightarrow> dict_get CRIME_PROPERTY_TYPE_MULTIPLIERS pt 1 = 1
           \<and> dict_get FLOOD_PROPERTY_TYPE_MULTIPLIERS pt 1 = 1"
    by (simp add: dict_get_def CRIME_PROPERTY_TYPE_MULTIPLIERS_def
          FLOOD_PROPERTY_TYPE_MULTIPLIERS_def)
  show ?thesis
    using crime crime_empty flood flood_empty unknown by blast
qed

theorem scores_in_range_witness:
  "''PET'' \<noteq> ''BEAUTY'' \<and> ''PET'' \<noteq> ''HOME'' \<and> ''PET'' \<noteq> ''COMMERCIAL''
   \<and> dict_get CRIME_PROPERTY_TYPE_MULTIPLIERS ''PET'' 1 = 1
   \<and> dict_get FLOOD_PROPERTY_TYPE_MULTIPLIERS ''PET'' 1 = 1
   \<and> 0 \<le> calculate_crime_risk [\<lparr>category = Some (JStr ''robbery'')\<rparr>] ''PET''
   \<and> calculate_crime_risk [\<lparr>category = Some (JStr ''robbery'')\<rparr>] ''PET'' \<le> 100"
proof -
  have h: "''PET'' \<noteq> ''BEAUTY'' \<and> ''PET'' \<noteq> ''HOME'' \<and> ''PET'' \<noteq> ''COMMERCIAL''"
    by simp
  show ?thesis
    using h scores_in_range [of "[\<lparr>category = Some (JStr ''robbery'')\<rparr>]" "''PET''" "[]"]
    by blast
qed

subsection \<open>C10: records without a usable category\<close>

text \<open>
  C10: a crime record whose category is absent, null or the empty string contributes 0
  to the sum of \<open>calculate_crime_risk\<close>: the score of a dataset does not change when
  such a record is taken out. A record whose category is a non-empty string outside the
  table contributes the default weight 1.
\<close>

theorem category_missing_contributes_nothing:
  assumes "category c = None \<or> category c = Some JNull \<or> category c = Some (JStr [])"
    and "s \<noteq> []" and "map_of CRIME_WEIGHTS s = None"
  shows "crime_loop (c # rest) acc = crime_loop rest acc
         \<and> calculate_crime_risk (pre @ c # post) pt = calculate_crime_risk (pre @ post) pt
         \<and> crime_loop (\<lparr>category = Some (JStr s)\<rparr> # rest) acc = crime_loop rest (acc + 1)"
proof -
  have w: "crime_weight c = 0"
    using assms(1) by (rule crime_weight_skipped)
  have step: "crime_loop (c # rest) acc = crime_loop rest acc"
    using w by (simp add: crime_loop_sum)
  have whole: "calculate_crime_risk (pre @ c # post) pt = calculate_crime_risk (pre @ post) pt"
    using w by (simp add: calculate_crime_risk_closed)
  have other: "crime_loop (\<lparr>category = Some (JStr s)\<rparr> # rest) acc = crime_loop rest (acc + 1)"
    using unknown_category_weight [OF assms(2,3)] by (simp add: crime_loop_sum)
  show ?thesis using step whole other by simp
qed

theorem category_missing_contributes_nothing_witness:
  "calculate_crime_risk
     [\<lparr>category = Some (JStr ''burglary'')\<rparr>, \<lparr>category = None\<rparr>] ''BEAUTY''
   = calculate_crime_risk [\<lparr>category = Some (JStr ''burglary'')\<rparr>] ''BEAUTY''
   \<and> crime_loop [\<lparr>category = None\<rparr>] 0 = 0
   \<and> crime_loop [\<lparr>category = Some (JStr ''arson'')\<rparr>] 0 = 1"
proof -
  have h1: "category \<lparr>category = None\<rparr> = None
            \<or> category \<lparr>category = None\<rparr> = Some JNull
            \<or> category \<lparr>category = None\<rparr> = Some (JStr [])"
    by simp
  have h2: "''arson'' \<noteq> []" by simp
  have h3: "map_of CRIME_WEIGHTS ''arson'' = None"
    by (simp add: CRIME_WEIGHTS_def)
  show ?thesis
    using category_missing_contributes_nothing
            [OF h1 h2 h3, of "[]" 0 "[\<lparr>category = Some (JStr ''burglary'')\<rparr>]" "[]" "''BEAUTY''"]
    by simp
qed

section \<open>Properties of the retry wrapper\<close>


lemma wrapper_loop_unfold:
  "int a < m \<Longrightarrow> f a = Inr r \<Longrightarrow> wrapper_loop m b f a w s = (Inr (Some r), Suc a, s)"
  "int a < m \<Longrightarrow> f a = Inl e \<Longrightarrow> m \<le> int (Suc a)
     \<Longrightarrow> wrapper_loop m b f a w s = (Inl e, Suc a, s)"
  "int a < m \<Longrightarrow> f a = Inl e \<Longrightarrow> \<not> m \<le> int (Suc a) \<Longrightarrow> time_sleep w = Some raised
     \<Longrightarrow> wrapper_loop m b f a w s = (Inl raised, Suc a, s)"
  "int a < m \<Longrightarrow> f a = Inl e \<Longrightarrow> \<not> m \<le> int (Suc a) \<Longrightarrow> time_sleep w = None
     \<Longrightarrow> wrapper_loop m b f a w s = wrapper_loop m b f (Suc a) (w * b) (s @ [w])"
  "\<not> int a < m \<Longrightarrow> wrapper_loop m b f a w s = (Inr None, a, s)"
  by (simp_all add: wrapper_loop.simps)






lemma wrapper_loop_succeeds:
  "a \<le> k \<Longrightarrow> int k < m
     \<Longrightarrow> (\<And>j. a \<le> j \<Longrightarrow> j < k \<Longrightarrow> \<exists>e. f j = Inl e) \<Longrightarrow> f k = Inr r
     \<Longrightarrow> (\<And>i. a + i < k \<Longrightarrow> time_sleep (w * b ^ i) = None)
     \<Longrightarrow> \<exists>sl. wrapper_loop m b f a w s = (Inr (Some r), Suc k, sl)"
proof (induction m b f a w s rule: wrapper_loop.induct)
  case (1 m b f a w s)
  have am: "int a < m" using "1.prems" by simp
  show ?case
  proof (cases "a = k")
    case True
    with am "1.prems" show ?thesis by (simp add: wrapper_loop_unfold)
  next
    case False
    with "1.prems" have ak: "a < k" by simp
    with "1.prems"(3) obtain e where e: "f a = Inl e" by blast
    have last: "\<not> m \<le> int (Suc a)" using ak "1.prems"(2) by simp
    have slept: "time_sleep w = None"
      using "1.prems"(5) [of 0] ak by simp
    have "Suc a \<le> k" using ak by simp
    moreover have "\<And>j. Suc a \<le> j \<Longrightarrow> j < k \<Longrightarrow> \<exists>e. f j = Inl e"
      using "1.prems"(3) by simp
    moreover have "\<And>i. Suc a + i < k \<Longrightarrow> time_sleep (w * b * b ^ i) = None"
      using "1.prems"(5) [of "Suc i" for i] by (simp add: mult.assoc)
    ultimately have
      "\<exists>sl. wrapper_loop m b f (Suc a) (w * b) (s @ [w]) = (Inr (Some r), Suc k, sl)"
      using "1.IH" [OF am e last slept] "1.prems"(2,4) by blast
    then show ?thesis
      using last slept am e by (simp add: wrapper_loop_unfold)
  qed
qed

subsection \<open>C8: attempts, backoff schedule and the propagated error\<close>


text \<open>
  A wait beyond what \<open>time.sleep\<close> converts ends the run in the same way: with a
  backoff factor of \<open>10^20\<close> the second wait raises an OverflowError.
\<close>

lemma retry_huge_backoff_example:
  "wrapper 3 (10 ^ 20) always_failing = (Inl OverflowError, 2, [1])"
  by (simp add: wrapper_def always_failing_def time_sleep_def SLEEP_MAX_def
        wrapper_loop.simps [of _ _ _ 0] wrapper_loop.simps [of _ _ _ "Suc 0"])



section \<open>Properties of the lookups and of the assessment\<close>

lemmas cache_defs = cache_get_def cache_set_def log_event_def http_calls_def CACHE_TIMEOUT_def

lemmas strptime_defs =
  strptime_Ymd_def regex_match_Ymd_def month_matches_def day_matches_def two_digits_def
  one_digit_def digit_value_def days_in_month_def

lemma normalize_example: "normalize_postcode ''SW1A 1AA'' = ''SW1A1AA''"
  by (simp add: normalize_postcode_def upper_char_def dict_get_def)

lemma strptime_example: "strptime_Ymd ''2024-01-25'' = Some (2024, 1, 25)"
  by (simp add: strptime_defs)

lemma first_resolution:
  "get_long_lat example_world ''SW1A 1AA''
     = (Inr (PCoords (103 / 2) (1 / 4)),
        example_world
          \<lparr>cache_entries :=
             (cache_entries example_world)
               ((86400, Postcode_cordinates ''SW1A1AA'') \<mapsto> (PNum (103 / 2), Some (1000 + 1 / 4))),
           trace := [Cache_get (Postcode_cordinates ''SW1A1AA''),
                     Http_get (Postcode_lookup ''SW1A 1AA''),
                     Cache_set 86400 (Postcode_cordinates ''SW1A1AA'')]\<rparr>)"
  by (simp add: get_long_lat_def get_long_lat_try_def normalize_example cache_defs
        example_world_def Let_def)

lemma example_world_fields:
  "clock example_world = 1000"
  "cache_version example_world = 1"
  "cache_entries example_world k = None"
  "postcodes_io example_world n pc
     = Response 200 (Body_result \<lparr>latitude = Some (103 / 2), longitude = Some (1 / 4)\<rparr>)"
  "police_uk example_world n d lat long = Response 200 [\<lparr>category = Some (JStr ''burglary'')\<rparr>]"
  "flood_monitoring example_world n lat long dist_km
     = Response 200 (Flood_object \<lparr>items = Some []\<rparr>)"
  "trace example_world = []"
  by (simp_all add: example_world_def)

lemma cache_get_services:
  "postcodes_io (snd (cache_get w k)) = postcodes_io w"
  "http_calls (snd (cache_get w k)) = http_calls w"
  by (simp_all add: cache_defs)

subsection \<open>C1: the product type of the crime score\<close>

text \<open>
  Whatever the product type of the request, the crime risk of a successful assessment is
  the HOME score of some crime dataset.
\<close>

lemma crime_risk_ignores_product_type:
  assumes "calculate_location_risks w postcode product_type timestamp = (Inr risks, w')"
  shows "\<exists>crime_data. crime_risk risks = calculate_crime_risk crime_data ''HOME''"
  using assms
  by (auto simp: calculate_location_risks_def calculate_location_risks_try_def
        split: if_splits prod.splits sum.splits pyval.splits)

text \<open>
  C1 fails on the code: \<open>calculate_location_risks\<close> scores the crime dataset with the
  literal product type HOME. For a COMMERCIAL quote in the example world, with one
  burglary on record, it returns the crime risk 4.5, the score for HOME, while the score
  for the quote's own product type is 6.
\<close>

theorem crime_risk_scored_as_home:
  "fst (calculate_location_risks example_world ''SW1A 1AA'' ''COMMERCIAL''
          ''2024-01-25 10:00:00'')
     = Inr \<lparr>flood_risk = 0, crime_risk = 9 / 2\<rparr>
   \<and> calculate_crime_risk [\<lparr>category = Some (JStr ''burglary'')\<rparr>] ''COMMERCIAL'' = 6
   \<and> calculate_crime_risk [\<lparr>category = Some (JStr ''burglary'')\<rparr>] ''HOME'' = 9 / 2"
proof -
  have date: "takeWhile (\<lambda>c. c \<noteq> CHR '' '') ''2024-01-25 10:00:00'' = ''2024-01-25''"
    by simp
  have home: "calculate_crime_risk [\<lparr>category = Some (JStr ''burglary'')\<rparr>] ''HOME'' = 9 / 2"
    by code_simp
  have commercial:
    "calculate_crime_risk [\<lparr>category = Some (JStr ''burglary'')\<rparr>] ''COMMERCIAL'' = 6"
    by code_simp
  have flood: "calculate_flood_risk \<lparr>items = Some []\<rparr> ''COMMERCIAL'' = Inr 0"
    by (simp add: calculate_flood_risk_def MAX_FLOOD_RISK_def float_div_def float_mul_def
          round53_zero)
  have run:
    "fst (calculate_location_risks example_world ''SW1A 1AA'' ''COMMERCIAL''
            ''2024-01-25 10:00:00'')
       = Inr \<lparr>flood_risk = 0, crime_risk = 9 / 2\<rparr>"
    by (simp add: calculate_location_risks_def calculate_location_risks_try_def
          first_resolution get_flood_data_for_location_def get_flood_data_for_location_try_def
          get_crimes_for_location_def get_crimes_for_location_try_def date strptime_example
          cache_defs example_world_fields Let_def flood home)
  show ?thesis
    using run home commercial by simp
qed

subsection \<open>C2: the risk category\<close>

lemma risk_type_thresholds:
  "(risk_type f c = Inr ''HIGH_VALUE_RISK'') = (f + c > 100)"
  "(risk_type f c = Inr ''STANDARD_VALUE_RISK'') = (f + c < 100)"
  by (auto simp: risk_type_def Let_def)

lemma risk_type_tie:
  "f + c = 100
     \<Longrightarrow> risk_type f c
           = Inl (ValueError (Error_calculating_risk_type (UnboundLocalError ''risk_value'')))"
  by (simp add: risk_type_def Let_def)

text \<open>
  C2 fails on the code at the tie: for a flood risk of 100 and a crime risk of 0, whose
  sum is exactly 100, \<open>risk_type\<close> raises a ValueError instead of returning a category.
\<close>

theorem risk_type_tie_raises:
  "risk_type 100 0
     = Inl (ValueError (Error_calculating_risk_type (UnboundLocalError ''risk_value'')))"
  by (simp add: risk_type_def Let_def)

subsection \<open>C6: resolving a postcode twice\<close>

text \<open>
  Whenever the cache's own version is not 86400, a resolution that misses the cache makes
  one HTTP call and leaves the cache missing for the same postcode: nothing it stores is
  visible to the next \<open>cache.get\<close>.
\<close>

lemma resolver_miss_persists:
  assumes "cache_version w \<noteq> 86400"
    and "\<not> truthy (fst (cache_get w (Postcode_cordinates (normalize_postcode pc))))"
  shows "http_calls (snd (get_long_lat w pc)) = Suc (http_calls w)"
    and "\<not> truthy (fst (cache_get (snd (get_long_lat w pc))
                              (Postcode_cordinates (normalize_postcode pc))))"
    and "cache_version (snd (get_long_lat w pc)) = cache_version w"
  using assms
  by (auto simp: get_long_lat_def get_long_lat_try_def cache_defs Let_def split_beta
        split: response.splits pc_body.splits option.splits if_splits)

text \<open>
  C6 fails on the code: \<open>get_long_lat\<close> stores the latitude alone, under version 86400
  and with the longitude as the timeout, so the entry is never read back. In the example
  world the first resolution of SW1A 1AA succeeds with one HTTP call, and a second
  resolution right after it, at the same clock, makes a second HTTP call.
\<close>

theorem second_resolution_calls_upstream:
  "fst (get_long_lat example_world ''SW1A 1AA'') = Inr (PCoords (103 / 2) (1 / 4))
   \<and> http_calls (snd (get_long_lat example_world ''SW1A 1AA'')) = 1
   \<and> clock (snd (get_long_lat example_world ''SW1A 1AA'')) = clock example_world
   \<and> cache_entries (snd (get_long_lat example_world ''SW1A 1AA''))
        (86400, Postcode_cordinates ''SW1A1AA'') = Some (PNum (103 / 2), Some (1000 + 1 / 4))
   \<and> cache_entries (snd (get_long_lat example_world ''SW1A 1AA''))
        (1, Postcode_cordinates ''SW1A1AA'') = None
   \<and> fst (get_long_lat (snd (get_long_lat example_world ''SW1A 1AA'')) ''SW1A 1AA'')
        = Inr (PCoords (103 / 2) (1 / 4))
   \<and> http_calls (snd (get_long_lat (snd (get_long_lat example_world ''SW1A 1AA''))
                         ''SW1A 1AA'')) = 2"
proof -
  have second:
    "http_calls (snd (get_long_lat (snd (get_long_lat example_world ''SW1A 1AA''))
                        ''SW1A 1AA'')) = 2
     \<and> fst (get_long_lat (snd (get_long_lat example_world ''SW1A 1AA'')) ''SW1A 1AA'')
          = Inr (PCoords (103 / 2) (1 / 4))"
    by (simp add: first_resolution)
       (simp add: get_long_lat_def get_long_lat_try_def normalize_example cache_defs
          example_world_def Let_def)
  have first:
    "fst (get_long_lat example_world ''SW1A 1AA'') = Inr (PCoords (103 / 2) (1 / 4))
     \<and> http_calls (snd (get_long_lat example_world ''SW1A 1AA'')) = 1
     \<and> clock (snd (get_long_lat example_world ''SW1A 1AA'')) = clock example_world
     \<and> cache_entries (snd (get_long_lat example_world ''SW1A 1AA''))
          (86400, Postcode_cordinates ''SW1A1AA'') = Some (PNum (103 / 2), Some (1000 + 1 / 4))
     \<and> cache_entries (snd (get_long_lat example_world ''SW1A 1AA''))
          (1, Postcode_cordinates ''SW1A1AA'') = None"
    by (simp add: first_resolution http_calls_def) (simp add: example_world_def)
  show ?thesis using first second by simp
qed

subsection \<open>C7: the errors of the crime data client\<close>

lemma malformed_timestamp_raises_first:
  assumes "strptime_Ymd (takeWhile (\<lambda>c. c \<noteq> CHR '' '') timestamp) = None"
  shows "get_crimes_for_location w timestamp lat long
           = (Inl (ValueError (Invalid_date_format timestamp)), w)"
  using assms
  by (simp add: get_crimes_for_location_def get_crimes_for_location_try_def
        get_crimes_for_location_except_def)

lemma request_failure_raises_connection_error:
  assumes "strptime_Ymd (takeWhile (\<lambda>c. c \<noteq> CHR '' '') timestamp) = Some (y, m, d)"
    and "\<not> truthy (fst (cache_get w (Crimes (y, m) long lat)))"
    and "police_uk w (http_calls w) (y, m) lat long = Request_failed"
  shows "fst (get_crimes_for_location w timestamp lat long)
           = Inl (ConnectionError (Error_retrieving_crime_data lat long RequestException))"
  using assms
  by (simp add: get_crimes_for_location_def get_crimes_for_location_try_def
        get_crimes_for_location_except_def cache_defs Let_def split: prod.splits)

lemma non_200_raises_invalid_date_format:
  assumes "strptime_Ymd (takeWhile (\<lambda>c. c \<noteq> CHR '' '') timestamp) = Some (y, m, d)"
    and "\<not> truthy (fst (cache_get w (Crimes (y, m) long lat)))"
    and "police_uk w (http_calls w) (y, m) lat long = Response status body"
    and "status \<noteq> 200"
  shows "fst (get_crimes_for_location w timestamp lat long)
           = Inl (ValueError (Invalid_date_format timestamp))"
  using assms
  by (simp add: get_crimes_for_location_def get_crimes_for_location_try_def
        get_crimes_for_location_except_def cache_defs Let_def split: prod.splits)

text \<open>
  C7 fails on the code in its last part: the ValueError that the \<open>try\<close> block raises
  for a response that is not a 200 is caught by the block's own \<open>except ValueError\<close>
  clause and replaced by the error of a malformed date. With the police service
  answering 404 in the example world, a well-formed timestamp makes one HTTP call, the
  block raises \<open>Could not get crimes\<close>, and the caller receives
  \<open>Invalid date format\<close>, as it does for the malformed timestamp 25/01/2024.
\<close>

theorem non_200_surfaces_as_invalid_date:
  "fst (get_crimes_for_location_try
          (example_world\<lparr>police_uk := (\<lambda>n d lat long. Response 404 [])\<rparr>)
          ''2024-01-25 10:00:00'' (103 / 2) (1 / 4))
     = Inl (ValueError (Could_not_get_crimes (2024, 1) (1 / 4) (103 / 2) 404))
   \<and> http_calls (snd (get_crimes_for_location
          (example_world\<lparr>police_uk := (\<lambda>n d lat long. Response 404 [])\<rparr>)
          ''2024-01-25 10:00:00'' (103 / 2) (1 / 4))) = 1
   \<and> fst (get_crimes_for_location
          (example_world\<lparr>police_uk := (\<lambda>n d lat long. Response 404 [])\<rparr>)
          ''2024-01-25 10:00:00'' (103 / 2) (1 / 4))
     = Inl (ValueError (Invalid_date_format ''2024-01-25 10:00:00''))
   \<and> fst (get_crimes_for_location
          (example_world\<lparr>police_uk := (\<lambda>n d lat long. Response 404 [])\<rparr>)
          ''25/01/2024'' (103 / 2) (1 / 4))
     = Inl (ValueError (Invalid_date_format ''25/01/2024''))"
proof -
  have date: "takeWhile (\<lambda>c. c \<noteq> CHR '' '') ''2024-01-25 10:00:00'' = ''2024-01-25''"
    by simp
  have bad: "strptime_Ymd (takeWhile (\<lambda>c. c \<noteq> CHR '' '') ''25/01/2024'') = None"
    by (simp add: strptime_defs)
  have malformed:
    "fst (get_crimes_for_location
            (example_world\<lparr>police_uk := (\<lambda>n d lat long. Response 404 [])\<rparr>)
            ''25/01/2024'' (103 / 2) (1 / 4))
       = Inl (ValueError (Invalid_date_format ''25/01/2024''))"
    using malformed_timestamp_raises_first [OF bad] by simp
  have try_block:
    "get_crimes_for_location_try
       (example_world\<lparr>police_uk := (\<lambda>n d lat long. Response 404 [])\<rparr>)
       ''2024-01-25 10:00:00'' (103 / 2) (1 / 4)
     = (Inl (ValueError (Could_not_get_crimes (2024, 1) (1 / 4) (103 / 2) 404)),
        example_world
          \<lparr>police_uk := (\<lambda>n d lat long. Response 404 []),
           trace := [Cache_get (Crimes (2024, 1) (1 / 4) (103 / 2)),
                     Http_get (Crimes_at_location (2024, 1) (103 / 2) (1 / 4))]\<rparr>)"
    by (simp add: get_crimes_for_location_try_def date strptime_example cache_defs
          example_world_def Let_def)
  have surfaced:
    "get_crimes_for_location
       (example_world\<lparr>police_uk := (\<lambda>n d lat long. Response 404 [])\<rparr>)
       ''2024-01-25 10:00:00'' (103 / 2) (1 / 4)
     = (Inl (ValueError (Invalid_date_format ''2024-01-25 10:00:00'')),
        example_world
          \<lparr>police_uk := (\<lambda>n d lat long. Response 404 []),
           trace := [Cache_get (Crimes (2024, 1) (1 / 4) (103 / 2)),
                     Http_get (Crimes_at_location (2024, 1) (103 / 2) (1 / 4))]\<rparr>)"
    by (simp add: get_crimes_for_location_def try_block get_crimes_for_location_except_def)
  have calls:
    "http_calls (snd (get_crimes_for_location
        (example_world\<lparr>police_uk := (\<lambda>n d lat long. Response 404 [])\<rparr>)
        ''2024-01-25 10:00:00'' (103 / 2) (1 / 4))) = 1"
    by (simp add: surfaced http_calls_def)
  show ?thesis
    using malformed calls by (simp add: surfaced try_block)
qed

subsection \<open>C9: a 200 response without coordinates\<close>

text \<open>
  C9 as stated fails: a 200 body that is a non-empty object without the member
  \<open>result\<close> has neither a latitude nor a longitude field, and for it line 53 evaluates
  \<open>data['result']\<close> and raises a KeyError, which the last handler raises again.
\<close>

theorem get_long_lat_without_result_counterexample:
  "postcodes_io world_without_result (http_calls world_without_result) ''SW1A 1AA''
     = Response 200 Body_without_result
   \<and> fst (get_long_lat world_without_result ''SW1A 1AA'') = Inl (KeyError ''result'')"
  by (simp add: get_long_lat_def get_long_lat_try_def normalize_example cache_defs
        world_without_result_def example_world_fields Let_def)

text \<open>
  C9 (amended): when the cache has no usable entry for the postcode and the postcode
  service answers 200 with a body that is falsy, or whose \<open>result\<close> is an object that
  lacks \<open>latitude\<close> or \<open>longitude\<close>, \<open>get_long_lat\<close> raises nothing and returns
  None; \<open>calculate_location_risks\<close>, which unpacks the result into a pair, then fails
  with the TypeError of the unpacking, wrapped into its ValueError. (A body that is a
  non-empty object without \<open>result\<close> raises the KeyError above instead.)
\<close>

theorem get_long_lat_without_coordinates:
  assumes "\<not> truthy (fst (cache_get w (Postcode_cordinates (normalize_postcode risk_postcode))))"
    and "postcodes_io w (http_calls w) risk_postcode = Response 200 body"
    and "body = Body_falsy
         \<or> (\<exists>res. body = Body_result res \<and> (latitude res = None \<or> longitude res = None))"
    and "risk_postcode \<noteq> []" and "product_type \<noteq> []" and "timestamp \<noteq> []"
  shows "fst (get_long_lat w risk_postcode) = Inr PNone
         \<and> fst (calculate_location_risks w risk_postcode product_type timestamp)
             = Inl (ValueError (Error_calculating_location_risks TypeError))"
proof -
  have body: "fst (get_long_lat_try w risk_postcode) = Inr PNone"
    using assms(1,2,3)
    by (auto simp: get_long_lat_try_def cache_get_services Let_def split_beta
          split: option.splits)
  then obtain w1 where try_block: "get_long_lat_try w risk_postcode = (Inr PNone, w1)"
    by (cases "get_long_lat_try w risk_postcode") simp
  have resolver: "get_long_lat w risk_postcode = (Inr PNone, w1)"
    by (simp add: get_long_lat_def try_block)
  have "calculate_location_risks_try w risk_postcode product_type timestamp
          = (Inl TypeError, w1)"
    by (simp add: calculate_location_risks_try_def resolver)
  then have "fst (calculate_location_risks w risk_postcode product_type timestamp)
               = Inl (ValueError (Error_calculating_location_risks TypeError))"
    using assms(4,5,6) by (simp add: calculate_location_risks_def)
  with resolver show ?thesis by simp
qed

theorem get_long_lat_without_coordinates_witness:
  "fst (get_long_lat
          (example_world
             \<lparr>postcodes_io :=
                (\<lambda>n pc. Response 200 (Body_result \<lparr>latitude = Some (103 / 2), longitude = None\<rparr>))\<rparr>)
          ''SW1A 1AA'') = Inr PNone
   \<and> fst (calculate_location_risks
          (example_world
             \<lparr>postcodes_io :=
                (\<lambda>n pc. Response 200 (Body_result \<lparr>latitude = Some (103 / 2), longitude = None\<rparr>))\<rparr>)
          ''SW1A 1AA'' ''HOME'' ''2024-01-25'')
       = Inl (ValueError (Error_calculating_location_risks TypeError))"
proof -
  let ?w = "example_world
              \<lparr>postcodes_io :=
                 (\<lambda>n pc. Response 200
                            (Body_result \<lparr>latitude = Some (103 / 2), longitude = None\<rparr>))\<rparr>"
  have miss: "\<not> truthy (fst (cache_get ?w (Postcode_cordinates (normalize_postcode ''SW1A 1AA''))))"
    by (simp add: cache_get_def example_world_def)
  have answer: "postcodes_io ?w (http_calls ?w) ''SW1A 1AA''
                  = Response 200 (Body_result \<lparr>latitude = Some (103 / 2), longitude = None\<rparr>)"
    by simp
  have lacks:
    "Body_result \<lparr>latitude = Some (103 / 2), longitude = None\<rparr> = Body_falsy
     \<or> (\<exists>res. Body_result \<lparr>latitude = Some (103 / 2), longitude = None\<rparr> = Body_result res
              \<and> (latitude res = None \<or> longitude res = None))"
    by simp
  show ?thesis
    using get_long_lat_without_coordinates
            [OF miss answer lacks, of "''HOME''" "''2024-01-25''"]
    by simp
qed

end
